theory Spec2Isabelle
  imports Complex_Main
begin

section \<open>The ZenB kernel: data model\<close>

text \<open>
  The kernel module (\<^verbatim>\<open>services/ZenBKernel\<close>) is embedded function by function.
  JavaScript numbers are taken as real numbers: rounding, infinities and NaN are not
  modelled. Optional fields (\<^verbatim>\<open>heart_rate?: number\<close>) are \<open>option\<close>s, object-valued
  fields that may be \<^verbatim>\<open>null\<close> likewise. String literals of the source stay strings.
  The module \<^verbatim>\<open>types\<close> is not among the sources: the types below have the fields the
  kernel reads and writes. A pattern's \<open>timings\<close> give a duration for each of the four
  phases.
\<close>

datatype Status = IDLE | RUNNING | PAUSED | HALTED | SAFETY_LOCK

datatype BreathPhase = inhale | holdIn | exhale | holdOut

record BreathPattern =
  pattern_id :: string
  timings :: "BreathPhase \<Rightarrow> real"

record BeliefState =
  arousal :: real
  attention :: real
  rhythm_alignment :: real
  prediction_error :: real

record Observation =
  timestamp :: real
  delta_time :: real
  visibilty_state :: string
  user_interaction :: "string option"
  heart_rate :: "real option"
  hr_confidence :: "real option"

record SafetyProfile =
  safety_lock_until :: real

text \<open>
  The tagged union \<^verbatim>\<open>KernelEvent\<close>: one constructor per \<^verbatim>\<open>type\<close> tag, the payload
  fields in the order the source writes them, the timestamp last.
\<close>

datatype KernelEvent =
    BOOT real
  | LOAD_PROTOCOL string real
  | START_SESSION real
  | INTERRUPTION string real
  | RESUME real
  | HALT string real
  | PHASE_TRANSITION BreathPhase BreathPhase real
  | CYCLE_COMPLETE real real
  | TICK real real
  | ADAPTATION string real
  | SAFETY_INTERDICTION real string real

fun is_START_SESSION :: "KernelEvent \<Rightarrow> bool" where
  "is_START_SESSION (START_SESSION _) = True"
| "is_START_SESSION _ = False"

fun is_TICK :: "KernelEvent \<Rightarrow> bool" where
  "is_TICK (TICK _ _) = True"
| "is_TICK _ = False"

fun is_LOAD_PROTOCOL :: "KernelEvent \<Rightarrow> bool" where
  "is_LOAD_PROTOCOL (LOAD_PROTOCOL _ _) = True"
| "is_LOAD_PROTOCOL _ = False"

fun is_CYCLE_COMPLETE :: "KernelEvent \<Rightarrow> bool" where
  "is_CYCLE_COMPLETE (CYCLE_COMPLETE _ _) = True"
| "is_CYCLE_COMPLETE _ = False"

fun is_PHASE_TRANSITION :: "KernelEvent \<Rightarrow> bool" where
  "is_PHASE_TRANSITION (PHASE_TRANSITION _ _ _) = True"
| "is_PHASE_TRANSITION _ = False"

fun is_SAFETY_INTERDICTION :: "KernelEvent \<Rightarrow> bool" where
  "is_SAFETY_INTERDICTION (SAFETY_INTERDICTION _ _ _) = True"
| "is_SAFETY_INTERDICTION _ = False"

record RuntimeState =
  status :: Status
  bootTimestamp :: real
  pattern :: "BreathPattern option"
  phase :: BreathPhase
  phaseElapsed :: real
  phaseDuration :: real
  cycleCount :: real
  sessionDuration :: real
  belief :: BeliefState
  lastObservation :: "Observation option"
  safetyRegistry :: "string \<rightharpoonup> SafetyProfile"

text \<open>
  What the kernel reads from outside itself. \<open>now\<close> is the reading of \<^verbatim>\<open>Date.now()\<close>
  and \<open>document_hidden\<close> that of \<^verbatim>\<open>document.hidden\<close>, both held fixed over one external
  call. The table \<^verbatim>\<open>BREATHING_PATTERNS\<close> (module \<^verbatim>\<open>types\<close>) and the two functions of
  module \<^verbatim>\<open>phaseMachine\<close> are not among the sources: they are parameters, and the
  theorems stated for every environment hold for whatever they are; the concrete runs
  take them from the sample environment further down. \<open>append_fails\<close> says on which
  events, at which durable log, the event store refuses an append.
\<close>

record Env =
  now :: real
  document_hidden :: bool
  BREATHING_PATTERNS :: "string \<rightharpoonup> BreathPattern"
  nextPhaseSkipZero :: "BreathPhase \<Rightarrow> BreathPattern \<Rightarrow> BreathPhase"
  isCycleBoundary :: "BreathPhase \<Rightarrow> bool"
  append_fails :: "KernelEvent list \<Rightarrow> KernelEvent \<Rightarrow> bool"

section \<open>Active inference: \<^verbatim>\<open>FreeEnergyController.update\<close>\<close>

text \<open>
  The guard \<^verbatim>\<open>obs.heart_rate && obs.hr_confidence && obs.hr_confidence > 0.6\<close> tests
  truthiness: an absent field and the number 0 are both falsy.
\<close>

definition update :: "BeliefState \<Rightarrow> Observation \<Rightarrow> BreathPattern option \<Rightarrow> BeliefState" where
  "update currentBelief obs targetPattern =
    (let dt = delta_time obs;
         expected_arousal = 0.3;
         observed_arousal =
           (case (heart_rate obs, hr_confidence obs) of
              (Some hr, Some conf) \<Rightarrow>
                if hr \<noteq> 0 \<and> conf \<noteq> 0 \<and> conf > 0.6
                then (let normalized_hr = min 1 (max 0 ((hr - 50) / 70))
                      in arousal currentBelief * 0.9 + normalized_hr * 0.1)
                else arousal currentBelief
            | _ \<Rightarrow> arousal currentBelief);
         isDistracted = (user_interaction obs = Some ''pause'' \<or> visibilty_state obs = ''hidden'');
         error_arousal = \<bar>observed_arousal - expected_arousal\<bar>;
         error_attention = (if isDistracted then 1.0 else 0.0);
         F = (error_arousal * 0.4) + (error_attention * 0.6)
               + ((1 - rhythm_alignment currentBelief) * 0.3)
     in \<lparr> arousal = arousal currentBelief + (observed_arousal - arousal currentBelief) * dt,
          attention =
            (if isDistracted then max 0 (attention currentBelief - (1.0 * dt))
             else min 1 (attention currentBelief + (0.1 * dt))),
          rhythm_alignment =
            (if isDistracted then max 0 (rhythm_alignment currentBelief - (0.5 * dt))
             else min 1 (rhythm_alignment currentBelief + (0.2 * dt))),
          prediction_error = F \<rparr>)"

section \<open>The safety plane: \<^verbatim>\<open>SafetyPlane.intercept\<close>\<close>

text \<open>
  The source only reads \<open>state\<close> and \<open>intention\<close> and the clock, and assigns to neither:
  the embedding is a function of the three, with no state among its results.
\<close>

definition intercept :: "Env \<Rightarrow> RuntimeState \<Rightarrow> KernelEvent \<Rightarrow> KernelEvent option" where
  "intercept env s intention =
    (if status s = SAFETY_LOCK \<and> is_START_SESSION intention
     then Some (SAFETY_INTERDICTION 1.0 ''REJECT_START'' (now env))
     else if is_TICK intention \<and> status s = RUNNING
             \<and> prediction_error (belief s) > 0.95 \<and> sessionDuration s > 10
     then Some (SAFETY_INTERDICTION 0.95 ''EMERGENCY_DAMPENING'' (now env))
     else (case intention of
             LOAD_PROTOCOL patternId _ \<Rightarrow>
               (case safetyRegistry s patternId of
                  Some profile \<Rightarrow>
                    if safety_lock_until profile > now env
                    then Some (SAFETY_INTERDICTION 0.8 ''PATTERN_LOCKED'' (now env))
                    else None
                | None \<Rightarrow> None)
           | _ \<Rightarrow> None))"

section \<open>The kernel\<close>

text \<open>
  The kernel object: its canonical state, the durable log behind the event store, the
  log buffer, and the snapshots it has broadcast (one entry per \<^verbatim>\<open>notify\<close>, newest
  last). Subscribers are observers here: they receive a snapshot and do not call back
  into the kernel.
\<close>

record Kernel =
  state :: RuntimeState
  eventStore :: "KernelEvent list"
  logBuffer :: "KernelEvent list"
  notified :: "RuntimeState list"

datatype StorageError = StorageError

text \<open>
  Modelled from the spec: \<^verbatim>\<open>PersistentEventStore.append\<close>, whose module \<^verbatim>\<open>eventStore\<close>
  is not among the sources. The spec gives it the contract
  \<^verbatim>\<open>append(event) \<rightarrow> Result<(), StorageError>\<close> over an append-only log that keeps insertion
  order: a failure is a returned value, and the log is then as it was. An append that
  fails by raising is outside this model: \<^verbatim>\<open>dispatch\<close> has no handler, so such a
  failure would leave it before the log buffer, the reducer and the notification.
\<close>

definition append :: "Env \<Rightarrow> KernelEvent list \<Rightarrow> KernelEvent \<Rightarrow> StorageError + KernelEvent list" where
  "append env stored e = (if append_fails env stored e then Inl StorageError else Inr (stored @ [e]))"

definition getInitialState :: "Env \<Rightarrow> RuntimeState" where
  "getInitialState env =
    \<lparr> status = IDLE, bootTimestamp = now env, pattern = None, phase = inhale,
      phaseElapsed = 0, phaseDuration = 0, cycleCount = 0, sessionDuration = 0,
      belief = \<lparr> arousal = 0.5, attention = 0.5, rhythm_alignment = 0, prediction_error = 0 \<rparr>,
      lastObservation = None, safetyRegistry = Map.empty \<rparr>"

definition notify :: "Kernel \<Rightarrow> Kernel" where
  "notify k = k\<lparr> notified := notified k @ [state k] \<rparr>"

definition ingestObservation :: "Kernel \<Rightarrow> Observation \<Rightarrow> Kernel" where
  "ingestObservation k obs = k\<lparr> state := (state k)\<lparr> lastObservation := Some obs \<rparr> \<rparr>"

definition loadSafetyRegistry :: "Kernel \<Rightarrow> (string \<rightharpoonup> SafetyProfile) \<Rightarrow> Kernel" where
  "loadSafetyRegistry k registry = k\<lparr> state := (state k)\<lparr> safetyRegistry := registry \<rparr> \<rparr>"

text \<open>
  \<^verbatim>\<open>dispatch\<close>, \<^verbatim>\<open>reduce\<close> and \<^verbatim>\<open>handleTick\<close> call each other: a tick that ends a phase
  dispatches a \<^verbatim>\<open>PHASE_TRANSITION\<close> and possibly a \<^verbatim>\<open>CYCLE_COMPLETE\<close> from inside the
  reducer. \<^verbatim>\<open>dispatch\<close> discards what \<^verbatim>\<open>append\<close> returns.
\<close>

text \<open>The measure of the recursion: only a \<^verbatim>\<open>TICK\<close> can lead to further dispatches.\<close>

fun tick_rank :: "KernelEvent \<Rightarrow> nat" where
  "tick_rank (TICK _ _) = 3"
| "tick_rank _ = 0"

lemma intercept_Some_interdiction:
  "intercept env s e = Some i \<Longrightarrow> \<exists>r a t. i = SAFETY_INTERDICTION r a t"
  by (auto simp: intercept_def split: if_splits KernelEvent.splits option.splits)

lemma tick_rank_processed:
  "tick_rank (case intercept env s e of Some i \<Rightarrow> i | None \<Rightarrow> e) \<le> tick_rank e"
  by (cases "intercept env s e") (auto dest: intercept_Some_interdiction)

function (sequential) dispatch :: "Env \<Rightarrow> Kernel \<Rightarrow> KernelEvent \<Rightarrow> Kernel"
  and reduce :: "Env \<Rightarrow> Kernel \<Rightarrow> KernelEvent \<Rightarrow> Kernel"
  and handleTick :: "Env \<Rightarrow> Kernel \<Rightarrow> real \<Rightarrow> Kernel"
where
  "dispatch env k intention =
    (let eventToProcess = (case intercept env (state k) intention of Some i \<Rightarrow> i | None \<Rightarrow> intention);
         k1 = k\<lparr> eventStore := (case append env (eventStore k) eventToProcess of
                                   Inr stored \<Rightarrow> stored | Inl _ \<Rightarrow> eventStore k),
                  logBuffer := take 50 (eventToProcess # logBuffer k) \<rparr>
     in notify (reduce env k1 eventToProcess))"
| "reduce env k (BOOT _) = k\<lparr> state := (state k)\<lparr> status := IDLE \<rparr> \<rparr>"
| "reduce env k (LOAD_PROTOCOL patternId _) =
    (if status (state k) = SAFETY_LOCK then k
     else (case BREATHING_PATTERNS env patternId of
             Some p \<Rightarrow>
               k\<lparr> state := (state k)\<lparr>
                     pattern := Some p,
                     phase := inhale,
                     phaseDuration := timings p inhale,
                     phaseElapsed := 0,
                     cycleCount := 0,
                     sessionDuration := 0,
                     status := IDLE,
                     belief := (belief (state k))\<lparr> rhythm_alignment := 0, prediction_error := 0 \<rparr> \<rparr> \<rparr>
           | None \<Rightarrow> k))"
| "reduce env k (START_SESSION _) =
    (if pattern (state k) \<noteq> None then k\<lparr> state := (state k)\<lparr> status := RUNNING \<rparr> \<rparr> else k)"
| "reduce env k (INTERRUPTION _ _) =
    (if status (state k) = RUNNING then k\<lparr> state := (state k)\<lparr> status := PAUSED \<rparr> \<rparr> else k)"
| "reduce env k (RESUME _) =
    (if status (state k) = PAUSED then k\<lparr> state := (state k)\<lparr> status := RUNNING \<rparr> \<rparr> else k)"
| "reduce env k (HALT _ _) =
    k\<lparr> state := (state k)\<lparr> status := IDLE, phaseElapsed := 0 \<rparr> \<rparr>"
| "reduce env k (SAFETY_INTERDICTION _ action _) =
    (if action = ''EMERGENCY_DAMPENING''
     then k\<lparr> state := (state k)\<lparr> status := SAFETY_LOCK \<rparr> \<rparr> else k)"
| "reduce env k (PHASE_TRANSITION _ to _) =
    (let s1 = (state k)\<lparr> phase := to, phaseElapsed := 0 \<rparr>
     in k\<lparr> state := (case pattern s1 of
                        Some p \<Rightarrow> s1\<lparr> phaseDuration := timings p to \<rparr>
                      | None \<Rightarrow> s1) \<rparr>)"
| "reduce env k (CYCLE_COMPLETE count _) = k\<lparr> state := (state k)\<lparr> cycleCount := count \<rparr> \<rparr>"
| "reduce env k (TICK dt _) = handleTick env k dt"
| "reduce env k (ADAPTATION _ _) = k"
| "handleTick env k dt =
    (if status (state k) \<noteq> RUNNING \<and> status (state k) \<noteq> PAUSED then k
     else
       (let obs = \<lparr> timestamp = now env,
                    delta_time = dt,
                    visibilty_state = (if document_hidden env then ''hidden'' else ''visible''),
                    user_interaction = (if status (state k) = PAUSED then Some ''pause'' else None),
                    heart_rate = (case lastObservation (state k) of
                                    Some lo \<Rightarrow> heart_rate lo | None \<Rightarrow> None),
                    hr_confidence = (case lastObservation (state k) of
                                       Some lo \<Rightarrow> hr_confidence lo | None \<Rightarrow> None) \<rparr>;
            s1 = (state k)\<lparr> belief := update (belief (state k)) obs (pattern (state k)) \<rparr>
        in (case pattern s1 of
              Some p \<Rightarrow>
                if status s1 = RUNNING then
                  (let s2 = s1\<lparr> phaseElapsed := phaseElapsed s1 + dt,
                                 sessionDuration := sessionDuration s1 + dt \<rparr>
                   in if phaseElapsed s2 \<ge> phaseDuration s2 then
                        (let next = nextPhaseSkipZero env (phase s2) p;
                             k3 = dispatch env (k\<lparr> state := s2 \<rparr>)
                                    (PHASE_TRANSITION (phase s2) next (now env))
                         in if isCycleBoundary env next
                            then dispatch env k3
                                   (CYCLE_COMPLETE (cycleCount (state k3) + 1) (now env))
                            else k3)
                      else k\<lparr> state := s2 \<rparr>)
                else k\<lparr> state := s1 \<rparr>
            | None \<Rightarrow> k\<lparr> state := s1 \<rparr>)))"
  by pat_completeness auto

termination
  apply (relation "measure (\<lambda>x. case x of
            Inl (env, k, e) \<Rightarrow> tick_rank e + 1
          | Inr (Inl (env, k, e)) \<Rightarrow> tick_rank e
          | Inr (Inr (env, k, dt)) \<Rightarrow> 2)")
    apply simp_all
  apply (metis tick_rank_processed less_Suc_eq_le)
  done

declare dispatch.simps [simp del] handleTick.simps [simp del]

text \<open>
  The constructor: the initial state, a store that \<^verbatim>\<open>init\<close> creates empty, and the
  \<^verbatim>\<open>BOOT\<close> dispatch.
\<close>

definition new_kernel :: "Env \<Rightarrow> Kernel" where
  "new_kernel env =
     dispatch env \<lparr> state = getInitialState env, eventStore = [], logBuffer = [], notified = [] \<rparr>
       (BOOT (now env))"

section \<open>Object identity: what \<^verbatim>\<open>getState\<close>, \<^verbatim>\<open>subscribe\<close> and \<^verbatim>\<open>notify\<close> hand out\<close>

text \<open>
  The functions above pass \<open>RuntimeState\<close> values. Whether a caller who is handed the
  state can change the kernel's own depends on which object it is handed, so the three
  methods that hand it out are modelled once more over an explicit store of objects. An
  object maps field names to values; a value is a number, a string, \<^verbatim>\<open>null\<close> or a
  reference to an object. \<open>this_state\<close> is the reference held in \<^verbatim>\<open>this.state\<close>. A
  callback receives a reference and may write to the store. \<open>spread\<close> is the object
  literal \<^verbatim>\<open>{ ...obj }\<close>: a new object with the fields of \<open>obj\<close>, field values copied as
  they are, references included. The \<^verbatim>\<open>Set\<close> of subscribers is a list in insertion
  order, its members taken as distinct; the unsubscribe function that \<^verbatim>\<open>subscribe\<close>
  returns is left out.
\<close>

datatype jsval = Num real | Str string | Null | Ref nat

type_synonym jsobject = "string \<rightharpoonup> jsval"

record Store =
  objects :: "nat \<rightharpoonup> jsobject"
  next_ref :: nat

type_synonym callback = "nat \<Rightarrow> Store \<Rightarrow> Store"

record KernelObject =
  this_state :: nat
  subscribers :: "callback list"

definition spread :: "Store \<Rightarrow> nat \<Rightarrow> nat \<times> Store" where
  "spread h r =
     (next_ref h,
      h\<lparr> objects := (objects h)(next_ref h := objects h r), next_ref := next_ref h + 1 \<rparr>)"

definition getState :: "KernelObject \<Rightarrow> nat" where
  "getState K = this_state K"

definition subscribe :: "KernelObject \<Rightarrow> callback \<Rightarrow> Store \<Rightarrow> KernelObject \<times> Store" where
  "subscribe K cb h = (K\<lparr> subscribers := subscribers K @ [cb] \<rparr>, cb (this_state K) h)"

definition notify_objects :: "KernelObject \<Rightarrow> Store \<Rightarrow> Store" where
  "notify_objects K h =
     foldl (\<lambda>h cb. case spread h (this_state K) of (r, h') \<Rightarrow> cb r h') h (subscribers K)"

text \<open>
  What a caller can do with a reference: read a field, assign to a field
  (\<^verbatim>\<open>s.status = v\<close>), assign to a field of a nested object (\<^verbatim>\<open>s.belief.arousal = v\<close>).
\<close>

definition field :: "Store \<Rightarrow> nat \<Rightarrow> string \<Rightarrow> jsval option" where
  "field h r f = (case objects h r of Some ob \<Rightarrow> ob f | None \<Rightarrow> None)"

definition assign :: "nat \<Rightarrow> string \<Rightarrow> jsval \<Rightarrow> Store \<Rightarrow> Store" where
  "assign r f v h =
     (case objects h r of
        Some ob \<Rightarrow> h\<lparr> objects := (objects h)(r \<mapsto> ob(f \<mapsto> v)) \<rparr>
      | None \<Rightarrow> h)"

definition assign_nested :: "nat \<Rightarrow> string \<Rightarrow> string \<Rightarrow> jsval \<Rightarrow> Store \<Rightarrow> Store" where
  "assign_nested r f g v h =
     (case field h r f of Some (Ref r') \<Rightarrow> assign r' g v h | _ \<Rightarrow> h)"

text \<open>The store right after \<^verbatim>\<open>getInitialState\<close>: the state object, its belief, its registry.\<close>

definition initial_store :: Store where
  "initial_store =
     \<lparr> objects =
         [0 \<mapsto> [''status'' \<mapsto> Str ''IDLE'', ''bootTimestamp'' \<mapsto> Num 1000, ''pattern'' \<mapsto> Null,
                ''phase'' \<mapsto> Str ''inhale'', ''phaseElapsed'' \<mapsto> Num 0, ''phaseDuration'' \<mapsto> Num 0,
                ''cycleCount'' \<mapsto> Num 0, ''sessionDuration'' \<mapsto> Num 0, ''belief'' \<mapsto> Ref 1,
                ''lastObservation'' \<mapsto> Null, ''safetyRegistry'' \<mapsto> Ref 2],
          1 \<mapsto> [''arousal'' \<mapsto> Num 0.5, ''attention'' \<mapsto> Num 0.5, ''rhythm_alignment'' \<mapsto> Num 0,
                ''prediction_error'' \<mapsto> Num 0],
          2 \<mapsto> Map.empty],
       next_ref = 3 \<rparr>"

definition initial_object :: KernelObject where
  "initial_object = \<lparr> this_state = 0, subscribers = [] \<rparr>"

section \<open>Runs and sample inputs\<close>

text \<open>
  Modelled from the spec: \<^verbatim>\<open>nextPhaseSkipZero\<close> and \<^verbatim>\<open>isCycleBoundary\<close> of module
  \<^verbatim>\<open>phaseMachine\<close>, which is not among the sources. The spec: the next phase in the fixed
  cycle inhale, holdIn, exhale, holdOut, skipping every phase whose duration is not
  positive; a deterministic default (here inhale) when all are; the cycle boundary is
  inhale. They and the sample table of patterns only instantiate the parameters of
  \<open>Env\<close> for concrete runs.
\<close>

fun next_in_cycle :: "BreathPhase \<Rightarrow> BreathPhase" where
  "next_in_cycle inhale = holdIn"
| "next_in_cycle holdIn = exhale"
| "next_in_cycle exhale = holdOut"
| "next_in_cycle holdOut = inhale"

definition spec_nextPhaseSkipZero :: "BreathPhase \<Rightarrow> BreathPattern \<Rightarrow> BreathPhase" where
  "spec_nextPhaseSkipZero ph p =
    (let c1 = next_in_cycle ph; c2 = next_in_cycle c1; c3 = next_in_cycle c2; c4 = next_in_cycle c3
     in if timings p c1 > 0 then c1
        else if timings p c2 > 0 then c2
        else if timings p c3 > 0 then c3
        else if timings p c4 > 0 then c4
        else inhale)"

definition spec_isCycleBoundary :: "BreathPhase \<Rightarrow> bool" where
  "spec_isCycleBoundary ph = (ph = inhale)"

definition sample_patterns :: "string \<rightharpoonup> BreathPattern" where
  "sample_patterns =
     [''4-7-8'' \<mapsto> \<lparr> pattern_id = ''4-7-8'',
                     timings = (\<lambda>ph. case ph of inhale \<Rightarrow> 4 | holdIn \<Rightarrow> 7 | exhale \<Rightarrow> 8 | holdOut \<Rightarrow> 0) \<rparr>,
      ''4-0-4-2'' \<mapsto> \<lparr> pattern_id = ''4-0-4-2'',
                     timings = (\<lambda>ph. case ph of inhale \<Rightarrow> 4 | holdIn \<Rightarrow> 0 | exhale \<Rightarrow> 4 | holdOut \<Rightarrow> 2) \<rparr>]"

definition sample_env :: "bool \<Rightarrow> Env" where
  "sample_env hidden =
     \<lparr> now = 1000, document_hidden = hidden, BREATHING_PATTERNS = sample_patterns,
       nextPhaseSkipZero = spec_nextPhaseSkipZero, isCycleBoundary = spec_isCycleBoundary,
       append_fails = (\<lambda>_ _. False) \<rparr>"

text \<open>A kernel that holds a given state and has logged nothing.\<close>

definition bare :: "RuntimeState \<Rightarrow> Kernel" where
  "bare s = \<lparr> state = s, eventStore = [], logBuffer = [], notified = [] \<rparr>"

text \<open>A run: external dispatches one after the other, each under its own readings.\<close>

definition run :: "Kernel \<Rightarrow> (Env \<times> KernelEvent) list \<Rightarrow> Kernel" where
  "run k es = foldl (\<lambda>k (env, e). dispatch env k e) k es"

definition running_kernel :: Kernel where
  "running_kernel = run (new_kernel (sample_env True))
       [(sample_env True, LOAD_PROTOCOL ''4-7-8'' 1000), (sample_env True, START_SESSION 1000),
        (sample_env True, TICK 11 1000)]"

definition locked_kernel :: Kernel where
  "locked_kernel = dispatch (sample_env True) running_kernel (TICK 0.1 1000)"

definition sample_obs :: "real option \<Rightarrow> Observation" where
  "sample_obs hr =
     \<lparr> timestamp = 1000, delta_time = 0.1, visibilty_state = ''visible'', user_interaction = None,
       heart_rate = hr, hr_confidence = Some 0.9 \<rparr>"

definition second_phase_kernel :: Kernel where
  "second_phase_kernel = run (new_kernel (sample_env True))
       [(sample_env True, LOAD_PROTOCOL ''4-0-4-2'' 1000), (sample_env True, START_SESSION 1000),
        (sample_env True, TICK 4 1000)]"

definition third_phase_kernel :: Kernel where
  "third_phase_kernel = dispatch (sample_env True) second_phase_kernel (TICK 4 1000)"

definition second_cycle_kernel :: Kernel where
  "second_cycle_kernel = dispatch (sample_env True) third_phase_kernel (TICK 2.5 1000)"

definition started_kernel :: Kernel where
  "started_kernel = run (new_kernel (sample_env False))
       [(sample_env False, LOAD_PROTOCOL ''4-7-8'' 1000), (sample_env False, START_SESSION 1000)]"



text \<open>A finite sequence of \<^verbatim>\<open>update\<close> calls, each on the belief the one before returned.\<close>

fun updates :: "BeliefState \<Rightarrow> (Observation \<times> BreathPattern option) list \<Rightarrow> BeliefState" where
  "updates b [] = b"
| "updates b ((obs, p) # rest) = updates (update b obs p) rest"

section \<open>The estimator as the specification words it\<close>

text \<open>
  These three follow the specification's sentences, not the source: the heart rate
  grounds the observed arousal whenever the field is present and the confidence is above
  0.6; the anomaly is 0.4 times the arousal error plus 0.6 for a distraction plus 0.3 times
  the rhythm misalignment.
\<close>

definition spec_observed_arousal :: "BeliefState \<Rightarrow> Observation \<Rightarrow> real" where
  "spec_observed_arousal b obs =
    (case heart_rate obs of
       Some hr \<Rightarrow>
         (case hr_confidence obs of
            Some conf \<Rightarrow>
              if conf > 0.6 then arousal b * 0.9 + min 1 (max 0 ((hr - 50) / 70)) * 0.1
              else arousal b
          | None \<Rightarrow> arousal b)
     | None \<Rightarrow> arousal b)"

definition spec_distracted :: "Observation \<Rightarrow> bool" where
  "spec_distracted obs = (user_interaction obs = Some ''pause'' \<or> visibilty_state obs = ''hidden'')"

definition spec_prediction_error :: "BeliefState \<Rightarrow> Observation \<Rightarrow> real" where
  "spec_prediction_error b obs =
     0.4 * \<bar>spec_observed_arousal b obs - 0.3\<bar>
     + 0.6 * (if spec_distracted obs then 1 else 0)
     + 0.3 * (1 - rhythm_alignment b)"

section \<open>Derived equations of the dispatch pipeline\<close>

lemma intercept_PHASE_TRANSITION: "intercept env s (PHASE_TRANSITION a b t) = None"
  by (simp add: intercept_def)

lemma intercept_CYCLE_COMPLETE: "intercept env s (CYCLE_COMPLETE c t) = None"
  by (simp add: intercept_def)

lemma dispatch_PHASE_TRANSITION:
  "dispatch env k (PHASE_TRANSITION a b t) =
     k\<lparr> eventStore := (if append_fails env (eventStore k) (PHASE_TRANSITION a b t) then eventStore k
                        else eventStore k @ [PHASE_TRANSITION a b t]),
        logBuffer := take 50 (PHASE_TRANSITION a b t # logBuffer k),
        state := (case pattern (state k) of
                    Some p \<Rightarrow> (state k)\<lparr> phase := b, phaseElapsed := 0, phaseDuration := timings p b \<rparr>
                  | None \<Rightarrow> (state k)\<lparr> phase := b, phaseElapsed := 0 \<rparr>),
        notified := notified k @ [case pattern (state k) of
                    Some p \<Rightarrow> (state k)\<lparr> phase := b, phaseElapsed := 0, phaseDuration := timings p b \<rparr>
                  | None \<Rightarrow> (state k)\<lparr> phase := b, phaseElapsed := 0 \<rparr>] \<rparr>"
  by (simp add: dispatch.simps intercept_PHASE_TRANSITION notify_def append_def Let_def split: option.split)

lemma dispatch_CYCLE_COMPLETE:
  "dispatch env k (CYCLE_COMPLETE c t) =
     k\<lparr> eventStore := (if append_fails env (eventStore k) (CYCLE_COMPLETE c t) then eventStore k
                        else eventStore k @ [CYCLE_COMPLETE c t]),
        logBuffer := take 50 (CYCLE_COMPLETE c t # logBuffer k),
        state := (state k)\<lparr> cycleCount := c \<rparr>,
        notified := notified k @ [(state k)\<lparr> cycleCount := c \<rparr>] \<rparr>"
  by (simp add: dispatch.simps intercept_CYCLE_COMPLETE notify_def append_def Let_def)

lemma handleTick_cycleCount:
  "cycleCount (state (handleTick env k dt)) = cycleCount (state k)
   \<or> cycleCount (state (handleTick env k dt)) = cycleCount (state k) + 1"
  by (simp add: handleTick.simps dispatch_PHASE_TRANSITION dispatch_CYCLE_COMPLETE Let_def
           split: option.split)

lemma reduce_cycleCount:
  "\<not> is_TICK e \<Longrightarrow> \<not> is_LOAD_PROTOCOL e \<Longrightarrow> \<not> is_CYCLE_COMPLETE e \<Longrightarrow>
   cycleCount (state (reduce env k e)) = cycleCount (state k)"
  by (cases e) (simp_all add: Let_def split: option.split)








lemma state_bare: "state (bare s) = s"
  by (simp add: bare_def)

lemma handleTick_state_only:
  assumes "state k' = state k"
  shows "state (handleTick env k' dt) = state (handleTick env k dt)"
  using assms
  by (simp add: handleTick.simps dispatch_PHASE_TRANSITION dispatch_CYCLE_COMPLETE Let_def
           split: option.split)

lemma reduce_state_only:
  assumes "state k' = state k"
  shows "state (reduce env k' e) = state (reduce env k e)"
proof (cases e)
  case (TICK dt t)
  then show ?thesis using handleTick_state_only[OF assms] by simp
qed (use assms in \<open>simp_all add: Let_def split: option.split\<close>)

lemma state_dispatch_bare:
  "state (dispatch env k e) = state (dispatch env (bare (state k)) e)"
proof -
  let ?ev = "case intercept env (state k) e of Some i \<Rightarrow> i | None \<Rightarrow> e"
  let ?k1 = "k\<lparr> eventStore := (case append env (eventStore k) ?ev of
                                   Inr stored \<Rightarrow> stored | Inl _ \<Rightarrow> eventStore k),
                  logBuffer := take 50 (?ev # logBuffer k) \<rparr>"
  let ?b = "bare (state k)"
  let ?b1 = "?b\<lparr> eventStore := (case append env (eventStore ?b) ?ev of
                                   Inr stored \<Rightarrow> stored | Inl _ \<Rightarrow> eventStore ?b),
                  logBuffer := take 50 (?ev # logBuffer ?b) \<rparr>"
  have d: "state (dispatch env k e) = state (reduce env ?k1 ?ev)"
    by (simp add: dispatch.simps Let_def notify_def)
  have d': "state (dispatch env ?b e) = state (reduce env ?b1 ?ev)"
    by (simp add: dispatch.simps Let_def notify_def state_bare)
  have "state ?k1 = state ?b1" by (simp add: state_bare)
  from reduce_state_only[OF this] show ?thesis
    unfolding d d' .
qed

lemma intercept_TICK_None:
  "\<not> (prediction_error (belief s) > 0.95 \<and> sessionDuration s > 10) \<Longrightarrow>
   intercept env s (TICK dt t) = None"
  by (auto simp: intercept_def)

lemma dispatch_TICK_passed:
  assumes "intercept env (state k) (TICK dt t) = None"
  shows "dispatch env k (TICK dt t) =
     notify (handleTick env
       (k\<lparr> eventStore := (if append_fails env (eventStore k) (TICK dt t) then eventStore k
                           else eventStore k @ [TICK dt t]),
           logBuffer := take 50 (TICK dt t # logBuffer k) \<rparr>) dt)"
  using assms by (simp add: dispatch.simps append_def Let_def)

lemma handleTick_crossing:
  assumes "status (state k) = RUNNING" "pattern (state k) = Some p"
    "phaseDuration (state k) \<le> phaseElapsed (state k) + dt"
  shows "handleTick env k dt =
    (let s2 = (state k)\<lparr> belief := update (belief (state k))
                 \<lparr> timestamp = now env, delta_time = dt,
                   visibilty_state = (if document_hidden env then ''hidden'' else ''visible''),
                   user_interaction = None,
                   heart_rate = (case lastObservation (state k) of
                                    Some lo \<Rightarrow> heart_rate lo | None \<Rightarrow> None),
                   hr_confidence = (case lastObservation (state k) of
                                       Some lo \<Rightarrow> hr_confidence lo | None \<Rightarrow> None) \<rparr> (Some p),
                 phaseElapsed := phaseElapsed (state k) + dt,
                 sessionDuration := sessionDuration (state k) + dt \<rparr>;
         nxt = nextPhaseSkipZero env (phase (state k)) p;
         k3 = dispatch env (k\<lparr> state := s2 \<rparr>) (PHASE_TRANSITION (phase (state k)) nxt (now env))
     in if isCycleBoundary env nxt
        then dispatch env k3 (CYCLE_COMPLETE (cycleCount (state k) + 1) (now env))
        else k3)"
  using assms
  apply (subst handleTick.simps)
  apply (simp add: Let_def dispatch_PHASE_TRANSITION)
  done

lemma update_bounds_step:
  assumes "0 \<le> attention b" "attention b \<le> 1" "0 \<le> rhythm_alignment b" "rhythm_alignment b \<le> 1"
    and "0 \<le> delta_time obs"
  shows "0 \<le> attention (update b obs p) \<and> attention (update b obs p) \<le> 1
       \<and> 0 \<le> rhythm_alignment (update b obs p) \<and> rhythm_alignment (update b obs p) \<le> 1"
  using assms by (simp add: update_def Let_def)

lemmas eval_simps = run_def new_kernel_def sample_env_def sample_patterns_def getInitialState_def
  dispatch.simps handleTick.simps intercept_def notify_def append_def update_def Let_def
  spec_nextPhaseSkipZero_def spec_isCycleBoundary_def

lemma dispatch_cycleCount:
  assumes "\<not> is_LOAD_PROTOCOL e" "\<not> is_CYCLE_COMPLETE e"
  shows "cycleCount (state (dispatch env k e)) = cycleCount (state k)
       \<or> cycleCount (state (dispatch env k e)) = cycleCount (state k) + 1"
proof -
  let ?ev = "case intercept env (state k) e of Some i \<Rightarrow> i | None \<Rightarrow> e"
  let ?k1 = "k\<lparr> eventStore := (case append env (eventStore k) ?ev of
                                   Inr stored \<Rightarrow> stored | Inl _ \<Rightarrow> eventStore k),
                  logBuffer := take 50 (?ev # logBuffer k) \<rparr>"
  have d: "state (dispatch env k e) = state (reduce env ?k1 ?ev)"
    by (simp add: dispatch.simps Let_def notify_def)
  have s1: "cycleCount (state ?k1) = cycleCount (state k)" by simp
  have "cycleCount (state (reduce env ?k1 ?ev)) = cycleCount (state ?k1)
      \<or> cycleCount (state (reduce env ?k1 ?ev)) = cycleCount (state ?k1) + 1"
  proof (cases "intercept env (state k) e")
    case None
    show ?thesis
    proof (cases "is_TICK e")
      case True
      then obtain dt t where "e = TICK dt t" by (cases e) auto
      then show ?thesis using None handleTick_cycleCount[of env ?k1 dt] by simp
    next
      case False
      then show ?thesis using None assms reduce_cycleCount[of e env ?k1] by simp
    qed
  next
    case (Some i)
    then obtain r a t where "i = SAFETY_INTERDICTION r a t"
      using intercept_Some_interdiction by blast
    then show ?thesis using Some by simp
  qed
  then show ?thesis unfolding d s1 .
qed

lemma dispatch_HALT:
  "state (dispatch env k (HALT reason t)) = (state k)\<lparr> status := IDLE, phaseElapsed := 0 \<rparr>"
  by (simp add: dispatch.simps intercept_def notify_def Let_def)

lemma dispatch_BOOT:
  "state (dispatch env k (BOOT t)) = (state k)\<lparr> status := IDLE \<rparr>"
  by (simp add: dispatch.simps intercept_def notify_def Let_def)

lemma running_kernel_state:
  "state running_kernel =
     \<lparr> status = RUNNING, bootTimestamp = 1000,
       pattern = sample_patterns ''4-7-8'',
       phase = holdIn, phaseElapsed = 0, phaseDuration = 7, cycleCount = 0,
       sessionDuration = 11,
       belief = \<lparr> arousal = 0.5, attention = 0, rhythm_alignment = 0, prediction_error = 0.98 \<rparr>,
       lastObservation = None, safetyRegistry = Map.empty \<rparr>"
  by (simp add: running_kernel_def eval_simps)

lemma locked_kernel_state:
  "state locked_kernel =
     \<lparr> status = SAFETY_LOCK, bootTimestamp = 1000,
       pattern = sample_patterns ''4-7-8'',
       phase = holdIn, phaseElapsed = 0, phaseDuration = 7, cycleCount = 0,
       sessionDuration = 11,
       belief = \<lparr> arousal = 0.5, attention = 0, rhythm_alignment = 0, prediction_error = 0.98 \<rparr>,
       lastObservation = None, safetyRegistry = Map.empty \<rparr>"
  unfolding locked_kernel_def
  by (subst state_dispatch_bare) (simp add: running_kernel_state bare_def eval_simps)

lemma second_phase_kernel_state:
  "state second_phase_kernel =
     \<lparr> status = RUNNING, bootTimestamp = 1000,
       pattern = sample_patterns ''4-0-4-2'',
       phase = exhale, phaseElapsed = 0, phaseDuration = 4, cycleCount = 0,
       sessionDuration = 4,
       belief = \<lparr> arousal = 0.5, attention = 0, rhythm_alignment = 0, prediction_error = 0.98 \<rparr>,
       lastObservation = None, safetyRegistry = Map.empty \<rparr>"
  by (simp add: second_phase_kernel_def eval_simps)

lemma third_phase_kernel_state:
  "state third_phase_kernel =
     \<lparr> status = RUNNING, bootTimestamp = 1000,
       pattern = sample_patterns ''4-0-4-2'',
       phase = holdOut, phaseElapsed = 0, phaseDuration = 2, cycleCount = 0,
       sessionDuration = 8,
       belief = \<lparr> arousal = 0.5, attention = 0, rhythm_alignment = 0, prediction_error = 0.98 \<rparr>,
       lastObservation = None, safetyRegistry = Map.empty \<rparr>"
  unfolding third_phase_kernel_def
  by (subst state_dispatch_bare) (simp add: second_phase_kernel_state bare_def eval_simps)

lemma second_cycle_kernel_state:
  "state second_cycle_kernel =
     \<lparr> status = RUNNING, bootTimestamp = 1000,
       pattern = sample_patterns ''4-0-4-2'',
       phase = inhale, phaseElapsed = 0, phaseDuration = 4, cycleCount = 1,
       sessionDuration = 10.5,
       belief = \<lparr> arousal = 0.5, attention = 0, rhythm_alignment = 0, prediction_error = 0.98 \<rparr>,
       lastObservation = None, safetyRegistry = Map.empty \<rparr>"
  unfolding second_cycle_kernel_def
  by (subst state_dispatch_bare) (simp add: third_phase_kernel_state bare_def eval_simps)

lemma started_kernel_state:
  "status (state started_kernel) = RUNNING
   \<and> pattern (state started_kernel) = sample_patterns ''4-7-8''
   \<and> phase (state started_kernel) = inhale
   \<and> phaseElapsed (state started_kernel) = 0
   \<and> phaseDuration (state started_kernel) = 4
   \<and> cycleCount (state started_kernel) = 0
   \<and> sessionDuration (state started_kernel) = 0
   \<and> prediction_error (belief (state started_kernel)) = 0"
  by (simp add: started_kernel_def eval_simps)

section \<open>The claims\<close>

subsection \<open>C1: stickiness of the safety lock\<close>

text \<open>
  C1 says that once the status is \<open>SAFETY_LOCK\<close> it stays so after every dispatch,
  \<^verbatim>\<open>HALT\<close> and \<^verbatim>\<open>BOOT\<close> included. The reducer guards \<^verbatim>\<open>LOAD_PROTOCOL\<close> against the
  lock and the safety plane rejects \<^verbatim>\<open>START_SESSION\<close> under it, but the \<^verbatim>\<open>HALT\<close> and
  \<^verbatim>\<open>BOOT\<close> cases assign \<open>IDLE\<close> without looking at the status. The kernel below is
  reached from a new kernel by loading a protocol, starting, and two ticks with the
  document hidden; it is locked, and a dispatched \<^verbatim>\<open>HALT\<close> or \<^verbatim>\<open>BOOT\<close> unlocks it, while
  \<^verbatim>\<open>LOAD_PROTOCOL\<close> and \<^verbatim>\<open>START_SESSION\<close> leave it locked. The last two lines hold
  for every kernel and every environment: after \<^verbatim>\<open>HALT\<close> or \<^verbatim>\<open>BOOT\<close> the status is
  \<open>IDLE\<close>, whatever it was.
\<close>

theorem safety_lock_is_left_by_halt_and_boot:
  "status (state locked_kernel) = SAFETY_LOCK
   \<and> status (state (dispatch (sample_env True) locked_kernel (HALT ''cleanup'' 1000))) = IDLE
   \<and> status (state (dispatch (sample_env True) locked_kernel (BOOT 1000))) = IDLE
   \<and> status (state (dispatch (sample_env True) locked_kernel (LOAD_PROTOCOL ''4-7-8'' 1000))) = SAFETY_LOCK
   \<and> status (state (dispatch (sample_env True) locked_kernel (START_SESSION 1000))) = SAFETY_LOCK
   \<and> status (state (dispatch env k (HALT reason t))) = IDLE
   \<and> status (state (dispatch env k (BOOT t))) = IDLE"
proof -
  have "status (state (dispatch (sample_env True) locked_kernel (LOAD_PROTOCOL ''4-7-8'' 1000))) = SAFETY_LOCK"
    by (subst state_dispatch_bare) (simp add: locked_kernel_state bare_def eval_simps)
  moreover
  have "status (state (dispatch (sample_env True) locked_kernel (START_SESSION 1000))) = SAFETY_LOCK"
    by (subst state_dispatch_bare) (simp add: locked_kernel_state bare_def eval_simps)
  ultimately show ?thesis
    by (simp add: locked_kernel_state dispatch_HALT dispatch_BOOT)
qed

subsection \<open>C2: a failed append\<close>


subsection \<open>C3: what is handed outward\<close>

text \<open>
  C3 says that every state handed outward is a copy distinct from the live object, so
  that a caller's mutation never reaches the kernel's state. \<^verbatim>\<open>notify\<close> passes
  \<^verbatim>\<open>{ ...this.state }\<close>, but \<^verbatim>\<open>getState\<close> returns \<^verbatim>\<open>this.state\<close> and \<^verbatim>\<open>subscribe\<close>
  calls the callback on \<^verbatim>\<open>this.state\<close>. On the initial store: the reference from
  \<^verbatim>\<open>getState\<close> is the live one, and an assignment to \<^verbatim>\<open>status\<close> through it, or by a
  callback at its subscription, changes the live status from \<open>IDLE\<close> to \<open>RUNNING\<close>. The
  same callback run by \<^verbatim>\<open>notify\<close> leaves the live status alone; the copy is shallow,
  though, and an assignment to \<^verbatim>\<open>belief.arousal\<close> through it changes the live belief.
\<close>

theorem handed_out_state_is_the_live_object:
  "getState initial_object = this_state initial_object
   \<and> field initial_store (this_state initial_object) ''status'' = Some (Str ''IDLE'')
   \<and> field (assign (getState initial_object) ''status'' (Str ''RUNNING'') initial_store)
        (this_state initial_object) ''status'' = Some (Str ''RUNNING'')
   \<and> field (snd (subscribe initial_object (\<lambda>r. assign r ''status'' (Str ''RUNNING'')) initial_store))
        (this_state initial_object) ''status'' = Some (Str ''RUNNING'')
   \<and> field (notify_objects (initial_object\<lparr> subscribers := [\<lambda>r. assign r ''status'' (Str ''RUNNING'')] \<rparr>)
          initial_store)
        (this_state initial_object) ''status'' = Some (Str ''IDLE'')
   \<and> field initial_store (this_state initial_object) ''belief'' = Some (Ref 1)
   \<and> field initial_store 1 ''arousal'' = Some (Num 0.5)
   \<and> field (notify_objects (initial_object\<lparr> subscribers := [\<lambda>r. assign_nested r ''belief'' ''arousal'' (Num 9)] \<rparr>)
          initial_store)
        1 ''arousal'' = Some (Num 9)"
  by (simp add: getState_def subscribe_def notify_objects_def spread_def field_def assign_def
        assign_nested_def initial_store_def initial_object_def)

subsection \<open>C4: what the safety plane returns\<close>

text \<open>
  C4: for every state and intention \<^verbatim>\<open>intercept\<close> returns nothing or a
  \<^verbatim>\<open>SAFETY_INTERDICTION\<close>, one of the three its rules build, and no other variant. It
  returns no state and assigns to none: its result is a function of the state, the
  intention and the clock.
\<close>

theorem intercept_None_or_interdiction:
  "intercept env s e = None
   \<or> intercept env s e = Some (SAFETY_INTERDICTION 1.0 ''REJECT_START'' (now env))
   \<or> intercept env s e = Some (SAFETY_INTERDICTION 0.95 ''EMERGENCY_DAMPENING'' (now env))
   \<or> intercept env s e = Some (SAFETY_INTERDICTION 0.8 ''PATTERN_LOCKED'' (now env))"
  by (simp add: intercept_def split: KernelEvent.split option.split)

subsection \<open>C5: the high-entropy cutoff\<close>

text \<open>
  C5: with status \<open>RUNNING\<close>, a session longer than 10 and a prediction error above
  0.95, a dispatched \<^verbatim>\<open>TICK\<close> is replaced by the interdiction with risk level 0.95 and
  action \<^verbatim>\<open>EMERGENCY_DAMPENING\<close>: that event is what goes to the store and the log
  buffer and what is reduced, nothing of the state but the status changes, and the
  status becomes \<open>SAFETY_LOCK\<close>.
\<close>

theorem high_entropy_tick_is_interdicted:
  assumes "status (state k) = RUNNING" "sessionDuration (state k) > 10"
    "prediction_error (belief (state k)) > 0.95"
  shows "intercept env (state k) (TICK dt t)
           = Some (SAFETY_INTERDICTION 0.95 ''EMERGENCY_DAMPENING'' (now env))
    \<and> eventStore (dispatch env k (TICK dt t)) =
        (if append_fails env (eventStore k) (SAFETY_INTERDICTION 0.95 ''EMERGENCY_DAMPENING'' (now env))
         then eventStore k
         else eventStore k @ [SAFETY_INTERDICTION 0.95 ''EMERGENCY_DAMPENING'' (now env)])
    \<and> logBuffer (dispatch env k (TICK dt t))
        = take 50 (SAFETY_INTERDICTION 0.95 ''EMERGENCY_DAMPENING'' (now env) # logBuffer k)
    \<and> state (dispatch env k (TICK dt t)) = (state k)\<lparr> status := SAFETY_LOCK \<rparr>
    \<and> status (state (dispatch env k (TICK dt t))) = SAFETY_LOCK"
  using assms by (simp add: dispatch.simps intercept_def notify_def append_def Let_def)

theorem high_entropy_tick_is_interdicted_witness:
  "status (state running_kernel) = RUNNING
   \<and> sessionDuration (state running_kernel) = 11
   \<and> prediction_error (belief (state running_kernel)) = 0.98
   \<and> eventStore (dispatch (sample_env True) running_kernel (TICK 0.1 1000))
       = eventStore running_kernel @ [SAFETY_INTERDICTION 0.95 ''EMERGENCY_DAMPENING'' 1000]
   \<and> status (state (dispatch (sample_env True) running_kernel (TICK 0.1 1000))) = SAFETY_LOCK"
proof -
  have h: "status (state running_kernel) = RUNNING" "sessionDuration (state running_kernel) > 10"
    "prediction_error (belief (state running_kernel)) > 0.95"
    by (simp_all add: running_kernel_state)
  from high_entropy_tick_is_interdicted[OF h, of "sample_env True" "0.1" 1000]
  show ?thesis by (simp add: running_kernel_state sample_env_def)
qed

subsection \<open>C6: a tick that ends a phase\<close>

text \<open>
  C6 says that from every running state with a pattern, \<open>phaseElapsed = 0\<close> and
  \<open>phaseDuration = 4\<close>, a dispatched \<^verbatim>\<open>TICK{dt:5}\<close> triggers one \<^verbatim>\<open>PHASE_TRANSITION\<close>.
  Against C6 as stated: the kernel below is at the start of its second cycle, 10.5
  seconds into the session, with a prediction error of 0.98. The safety plane replaces
  the tick: the interdiction alone is added to the log buffer, the phase stays, the status is
  \<open>SAFETY_LOCK\<close>.
\<close>

theorem tick_at_phase_end_can_be_interdicted:
  "status (state second_cycle_kernel) = RUNNING
   \<and> pattern (state second_cycle_kernel) = sample_patterns ''4-0-4-2''
   \<and> phaseElapsed (state second_cycle_kernel) = 0
   \<and> phaseDuration (state second_cycle_kernel) = 4
   \<and> logBuffer (dispatch (sample_env True) second_cycle_kernel (TICK 5 1000))
       = take 50 (SAFETY_INTERDICTION 0.95 ''EMERGENCY_DAMPENING'' 1000 # logBuffer second_cycle_kernel)
   \<and> phase (state (dispatch (sample_env True) second_cycle_kernel (TICK 5 1000)))
       = phase (state second_cycle_kernel)
   \<and> status (state (dispatch (sample_env True) second_cycle_kernel (TICK 5 1000))) = SAFETY_LOCK"
  by (simp add: second_cycle_kernel_state dispatch.simps intercept_def notify_def Let_def
        sample_env_def)

text \<open>
  C6, amended: for a running kernel with a pattern, \<open>phaseElapsed = 0\<close> and
  \<open>phaseDuration = 4\<close>, on which the high-entropy cutoff does not fire (the prediction
  error is at most 0.95 or the session at most 10), dispatching \<^verbatim>\<open>TICK{dt:5}\<close> processes
  the tick, then exactly one \<^verbatim>\<open>PHASE_TRANSITION\<close> to the next phase, then, exactly when
  that phase is the cycle boundary, one \<^verbatim>\<open>CYCLE_COMPLETE\<close> whose count is the previous
  \<open>cycleCount\<close> plus 1, and nothing else.
\<close>

theorem tick_crossing_phase_end:
  assumes "status (state k) = RUNNING" "pattern (state k) = Some p"
    "phaseElapsed (state k) = 0" "phaseDuration (state k) = 4"
    "\<not> (prediction_error (belief (state k)) > 0.95 \<and> sessionDuration (state k) > 10)"
  shows "(let nxt = nextPhaseSkipZero env (phase (state k)) p;
              evs = [TICK 5 t, PHASE_TRANSITION (phase (state k)) nxt (now env)]
                    @ (if isCycleBoundary env nxt
                       then [CYCLE_COMPLETE (cycleCount (state k) + 1) (now env)] else []);
              k' = dispatch env k (TICK 5 t)
          in logBuffer k' = take 50 (rev evs @ logBuffer k)
           \<and> eventStore k' = foldl (\<lambda>l e. if append_fails env l e then l else l @ [e]) (eventStore k) evs
           \<and> length (filter is_PHASE_TRANSITION evs) = 1
           \<and> length (filter is_CYCLE_COMPLETE evs) = (if isCycleBoundary env nxt then 1 else 0)
           \<and> phase (state k') = nxt
           \<and> phaseElapsed (state k') = 0
           \<and> phaseDuration (state k') = timings p nxt
           \<and> cycleCount (state k') =
               (if isCycleBoundary env nxt then cycleCount (state k) + 1 else cycleCount (state k))
           \<and> sessionDuration (state k') = sessionDuration (state k) + 5
           \<and> status (state k') = RUNNING)"
proof -
  let ?k1 = "k\<lparr> eventStore := (if append_fails env (eventStore k) (TICK 5 t) then eventStore k
                           else eventStore k @ [TICK 5 t]),
           logBuffer := take 50 (TICK 5 t # logBuffer k) \<rparr>"
  have i: "intercept env (state k) (TICK 5 t) = None"
    using assms(5) by (rule intercept_TICK_None)
  have d: "dispatch env k (TICK 5 t) = notify (handleTick env ?k1 5)"
    using i by (rule dispatch_TICK_passed)
  have h: "status (state ?k1) = RUNNING" "pattern (state ?k1) = Some p"
    "phaseDuration (state ?k1) \<le> phaseElapsed (state ?k1) + 5"
    using assms(1-4) by simp_all
  show ?thesis
  proof (cases "isCycleBoundary env (nextPhaseSkipZero env (phase (state k)) p)")
    case True
    then show ?thesis
      unfolding d handleTick_crossing[OF h]
      using assms(1,2)
      by (simp add: Let_def dispatch_PHASE_TRANSITION dispatch_CYCLE_COMPLETE notify_def)
  next
    case False
    then show ?thesis
      unfolding d handleTick_crossing[OF h]
      using assms(1,2)
      by (simp add: Let_def dispatch_PHASE_TRANSITION notify_def)
  qed
qed

theorem tick_crossing_phase_end_witness:
  "logBuffer (dispatch (sample_env False) started_kernel (TICK 5 1000))
     = [PHASE_TRANSITION inhale holdIn 1000, TICK 5 1000,
        START_SESSION 1000, LOAD_PROTOCOL ''4-7-8'' 1000, BOOT 1000]
   \<and> phase (state (dispatch (sample_env False) started_kernel (TICK 5 1000))) = holdIn
   \<and> phaseDuration (state (dispatch (sample_env False) started_kernel (TICK 5 1000))) = 7
   \<and> cycleCount (state (dispatch (sample_env False) started_kernel (TICK 5 1000))) = 0"
proof -
  have l: "logBuffer started_kernel = [START_SESSION 1000, LOAD_PROTOCOL ''4-7-8'' 1000, BOOT 1000]"
    by (simp add: started_kernel_def eval_simps)
  have p: "pattern (state started_kernel)
             = Some \<lparr> pattern_id = ''4-7-8'',
                      timings = (\<lambda>ph. case ph of inhale \<Rightarrow> 4 | holdIn \<Rightarrow> 7 | exhale \<Rightarrow> 8 | holdOut \<Rightarrow> 0) \<rparr>"
    using started_kernel_state by (simp add: sample_patterns_def)
  have h: "status (state started_kernel) = RUNNING" "phaseElapsed (state started_kernel) = 0"
    "phaseDuration (state started_kernel) = 4"
    "\<not> (prediction_error (belief (state started_kernel)) > 0.95
        \<and> sessionDuration (state started_kernel) > 10)"
    using started_kernel_state by simp_all
  from tick_crossing_phase_end[OF h(1) p h(2,3,4), of "sample_env False" 1000]
  show ?thesis
    using started_kernel_state l
    by (simp add: Let_def sample_env_def spec_nextPhaseSkipZero_def spec_isCycleBoundary_def)
qed

subsection \<open>C7: bounds of the belief\<close>

text \<open>
  C7: if attention and rhythm alignment are in [0,1] and every observation of a finite
  sequence has its \<open>delta_time\<close> in [0,0.1], then after the whole sequence of
  \<^verbatim>\<open>update\<close> calls, whatever the patterns, both are again in [0,1]. A single call is
  the sequence of length one.
\<close>

theorem update_keeps_bounds:
  assumes "0 \<le> attention b" "attention b \<le> 1" "0 \<le> rhythm_alignment b" "rhythm_alignment b \<le> 1"
    and "\<forall>x \<in> set steps. 0 \<le> delta_time (fst x) \<and> delta_time (fst x) \<le> 0.1"
  shows "0 \<le> attention (updates b steps) \<and> attention (updates b steps) \<le> 1
       \<and> 0 \<le> rhythm_alignment (updates b steps) \<and> rhythm_alignment (updates b steps) \<le> 1"
  using assms
proof (induction b steps rule: updates.induct)
  case (1 b)
  then show ?case by simp
next
  case (2 b obs p rest)
  have "0 \<le> delta_time obs" using "2.prems"(5) by simp
  from update_bounds_step[OF "2.prems"(1-4) this, of p] "2.prems"(5)
  show ?case using "2.IH" by simp
qed

theorem update_keeps_bounds_witness:
  "attention (updates (belief (getInitialState (sample_env False)))
       [(sample_obs None, None), (sample_obs (Some 80) \<lparr> visibilty_state := ''hidden'' \<rparr>, None)]) = 0.41
   \<and> rhythm_alignment (updates (belief (getInitialState (sample_env False)))
       [(sample_obs None, None), (sample_obs (Some 80) \<lparr> visibilty_state := ''hidden'' \<rparr>, None)]) = 0
   \<and> 0 \<le> attention (updates (belief (getInitialState (sample_env False)))
       [(sample_obs None, None), (sample_obs (Some 80) \<lparr> visibilty_state := ''hidden'' \<rparr>, None)])
   \<and> attention (updates (belief (getInitialState (sample_env False)))
       [(sample_obs None, None), (sample_obs (Some 80) \<lparr> visibilty_state := ''hidden'' \<rparr>, None)]) \<le> 1
   \<and> 0 \<le> rhythm_alignment (updates (belief (getInitialState (sample_env False)))
       [(sample_obs None, None), (sample_obs (Some 80) \<lparr> visibilty_state := ''hidden'' \<rparr>, None)])
   \<and> rhythm_alignment (updates (belief (getInitialState (sample_env False)))
       [(sample_obs None, None), (sample_obs (Some 80) \<lparr> visibilty_state := ''hidden'' \<rparr>, None)]) \<le> 1"
proof -
  let ?b = "belief (getInitialState (sample_env False))"
  let ?steps = "[(sample_obs None, None), (sample_obs (Some 80) \<lparr> visibilty_state := ''hidden'' \<rparr>, None)]"
  have b: "0 \<le> attention ?b" "attention ?b \<le> 1" "0 \<le> rhythm_alignment ?b" "rhythm_alignment ?b \<le> 1"
    by (simp_all add: getInitialState_def)
  have s: "\<forall>x \<in> set ?steps. 0 \<le> delta_time (fst x) \<and> delta_time (fst x) \<le> 0.1"
    by (simp add: sample_obs_def)
  have v: "attention (updates ?b ?steps) = 0.41" "rhythm_alignment (updates ?b ?steps) = 0"
    by (simp_all add: getInitialState_def sample_obs_def update_def Let_def)
  from update_keeps_bounds[OF b s] v show ?thesis by simp
qed

subsection \<open>C8: the formulas of the estimator\<close>

text \<open>
  C8 says that the heart rate grounds the observed arousal whenever it is present and
  the confidence is above 0.6. The source tests \<^verbatim>\<open>obs.heart_rate && ...\<close>, and the number
  0 is falsy. Against C8 as stated: on a heart rate of 0 with confidence 0.9 the returned
  prediction error is 0.38, and the formula of C8 gives 0.36.
\<close>

theorem zero_heart_rate_is_ignored:
  "prediction_error (update (belief (getInitialState (sample_env False))) (sample_obs (Some 0)) None) = 0.38
   \<and> spec_prediction_error (belief (getInitialState (sample_env False))) (sample_obs (Some 0)) = 0.36"
  by (simp add: getInitialState_def sample_obs_def update_def Let_def spec_prediction_error_def
        spec_observed_arousal_def spec_distracted_def)

text \<open>
  C8, amended: for every belief, observation and pattern, the observed arousal that
  \<^verbatim>\<open>update\<close> uses is the arousal itself when the heart rate is 0, and the observed
  arousal of C8 otherwise (the blend when the heart rate is present and the confidence
  is above 0.6, the arousal when not): a heart rate of 0 counts as absent. With that
  observed arousal, the returned prediction error is
  0.4 * |observed - 0.3| + 0.6 * (1 if distracted else 0) + 0.3 * (1 - rhythm alignment
  of the incoming belief), and the returned arousal has moved from the incoming one
  towards the observed one by \<open>delta_time\<close>.
\<close>

theorem update_prediction_error:
  "(let observed = (if heart_rate obs = Some 0 then arousal b else spec_observed_arousal b obs)
    in prediction_error (update b obs p)
         = 0.4 * \<bar>observed - 0.3\<bar>
           + 0.6 * (if spec_distracted obs then 1 else 0)
           + 0.3 * (1 - rhythm_alignment b)
     \<and> arousal (update b obs p) = arousal b + (observed - arousal b) * delta_time obs)"
  by (auto simp: update_def Let_def spec_observed_arousal_def spec_distracted_def mult.commute
        split: option.splits)

theorem update_prediction_error_witness:
  "prediction_error (update (belief (getInitialState (sample_env False))) (sample_obs (Some 120)) None) = 0.4
   \<and> arousal (update (belief (getInitialState (sample_env False))) (sample_obs (Some 120)) None) = 0.505
   \<and> spec_observed_arousal (belief (getInitialState (sample_env False))) (sample_obs (Some 120)) = 0.55
   \<and> prediction_error (update (belief (getInitialState (sample_env False))) (sample_obs None) None) = 0.38
   \<and> prediction_error (update (belief (getInitialState (sample_env False))) (sample_obs (Some 0)) None) = 0.38
   \<and> arousal (update (belief (getInitialState (sample_env False))) (sample_obs (Some 0)) None) = 0.5"
proof -
  let ?b = "belief (getInitialState (sample_env False))"
  have v: "spec_observed_arousal ?b (sample_obs (Some 120)) = 0.55"
    "spec_observed_arousal ?b (sample_obs None) = 0.5"
    by (simp_all add: getInitialState_def sample_obs_def spec_observed_arousal_def)
  have f: "heart_rate (sample_obs (Some 120)) = Some 120" "heart_rate (sample_obs None) = None"
    "heart_rate (sample_obs (Some 0)) = Some 0"
    "\<not> spec_distracted (sample_obs (Some 120))" "\<not> spec_distracted (sample_obs None)"
    "\<not> spec_distracted (sample_obs (Some 0))"
    "delta_time (sample_obs (Some 120)) = 0.1" "delta_time (sample_obs (Some 0)) = 0.1"
    "arousal ?b = 0.5" "rhythm_alignment ?b = 0"
    by (simp_all add: getInitialState_def sample_obs_def spec_distracted_def)
  from update_prediction_error[of "sample_obs (Some 120)" ?b None]
       update_prediction_error[of "sample_obs None" ?b None]
       update_prediction_error[of "sample_obs (Some 0)" ?b None]
  show ?thesis
    by (simp add: Let_def f v)
qed

subsection \<open>C9: the cycle count\<close>

text \<open>
  C9 says that without a \<^verbatim>\<open>LOAD_PROTOCOL\<close> no dispatched event lowers \<open>cycleCount\<close>,
  and that only \<^verbatim>\<open>LOAD_PROTOCOL\<close> sets it back to 0. The reducer assigns the count of a
  \<^verbatim>\<open>CYCLE_COMPLETE\<close> as it comes, and \<^verbatim>\<open>dispatch\<close> takes that event from any caller.
  Against C9 as stated: a kernel that has completed one cycle is back at 0 after
  \<^verbatim>\<open>CYCLE_COMPLETE{count:0}\<close>, its pattern still loaded.
\<close>

theorem cycle_complete_can_lower_cycleCount:
  "cycleCount (state second_cycle_kernel) = 1
   \<and> cycleCount (state (dispatch (sample_env True) second_cycle_kernel (CYCLE_COMPLETE 0 1000))) = 0
   \<and> pattern (state (dispatch (sample_env True) second_cycle_kernel (CYCLE_COMPLETE 0 1000)))
       = pattern (state second_cycle_kernel)"
  by (simp add: second_cycle_kernel_state dispatch_CYCLE_COMPLETE)

text \<open>
  C9, amended: over any sequence of dispatched events with neither \<^verbatim>\<open>LOAD_PROTOCOL\<close> nor
  \<^verbatim>\<open>CYCLE_COMPLETE\<close> among them, \<open>cycleCount\<close> never decreases, and each such event
  leaves it or adds 1 (the kernel's own \<^verbatim>\<open>CYCLE_COMPLETE\<close>, issued by a tick that reaches
  the cycle boundary). A dispatched \<^verbatim>\<open>LOAD_PROTOCOL\<close> sets \<open>cycleCount\<close> back to 0 exactly
  when it is accepted, that is when the safety plane lets it pass, the status is not
  \<open>SAFETY_LOCK\<close> and the pattern id resolves, and leaves it as it was otherwise. The one
  other event that can lower \<open>cycleCount\<close> or set it to 0 is a dispatched
  \<^verbatim>\<open>CYCLE_COMPLETE\<close>, which sets it to the count it carries.
\<close>

theorem cycleCount_never_decreases:
  assumes "\<forall>x \<in> set es. \<not> is_LOAD_PROTOCOL (snd x) \<and> \<not> is_CYCLE_COMPLETE (snd x)"
    and "\<not> is_LOAD_PROTOCOL e" "\<not> is_CYCLE_COMPLETE e"
  shows "cycleCount (state k) \<le> cycleCount (state (run k es))
       \<and> (cycleCount (state (dispatch env k e)) = cycleCount (state k)
          \<or> cycleCount (state (dispatch env k e)) = cycleCount (state k) + 1)
       \<and> cycleCount (state (dispatch env k (CYCLE_COMPLETE c t))) = c
       \<and> cycleCount (state (dispatch env k (LOAD_PROTOCOL patternId t)))
           = (if intercept env (state k) (LOAD_PROTOCOL patternId t) = None
                 \<and> status (state k) \<noteq> SAFETY_LOCK
                 \<and> BREATHING_PATTERNS env patternId \<noteq> None
              then 0 else cycleCount (state k))"
proof -
  have mono: "cycleCount (state k) \<le> cycleCount (state (run k es))"
    using assms(1)
  proof (induction es arbitrary: k)
    case Nil
    then show ?case by (simp add: run_def)
  next
    case (Cons x es)
    obtain env' e' where x: "x = (env', e')" by (cases x)
    have e: "\<not> is_LOAD_PROTOCOL e'" "\<not> is_CYCLE_COMPLETE e'"
      using Cons.prems x by simp_all
    have "cycleCount (state k) \<le> cycleCount (state (dispatch env' k e'))"
      using dispatch_cycleCount[OF e, of env' k] by auto
    also have "\<dots> \<le> cycleCount (state (run (dispatch env' k e') es))"
      using Cons.IH[of "dispatch env' k e'"] Cons.prems by simp
    finally show ?case by (simp add: run_def x)
  qed
  have load: "cycleCount (state (dispatch env k (LOAD_PROTOCOL patternId t)))
           = (if intercept env (state k) (LOAD_PROTOCOL patternId t) = None
                 \<and> status (state k) \<noteq> SAFETY_LOCK
                 \<and> BREATHING_PATTERNS env patternId \<noteq> None
              then 0 else cycleCount (state k))"
  proof (cases "intercept env (state k) (LOAD_PROTOCOL patternId t)")
    case None
    then show ?thesis
      by (auto simp: dispatch.simps notify_def Let_def split: option.split)
  next
    case (Some i)
    then obtain r a t' where "i = SAFETY_INTERDICTION r a t'"
      using intercept_Some_interdiction by blast
    then show ?thesis using Some
      by (simp add: dispatch.simps notify_def Let_def)
  qed
  show ?thesis
    using mono load dispatch_cycleCount[OF assms(2,3), of env k]
    by (simp add: dispatch_CYCLE_COMPLETE)
qed

theorem cycleCount_never_decreases_witness:
  "cycleCount (state second_phase_kernel) = 0
   \<and> cycleCount (state (run second_phase_kernel
            [(sample_env True, TICK 4 1000), (sample_env True, TICK 2.5 1000)])) = 1
   \<and> cycleCount (state second_phase_kernel)
       \<le> cycleCount (state (run second_phase_kernel
            [(sample_env True, TICK 4 1000), (sample_env True, TICK 2.5 1000)]))
   \<and> cycleCount (state third_phase_kernel) = 0
   \<and> cycleCount (state (dispatch (sample_env True) third_phase_kernel (TICK 2.5 1000))) = 1
   \<and> cycleCount (state second_cycle_kernel) = 1
   \<and> cycleCount (state (dispatch (sample_env True) second_cycle_kernel
                           (LOAD_PROTOCOL ''4-7-8'' 1000))) = 0
   \<and> cycleCount (state (dispatch (sample_env True) second_cycle_kernel
                           (LOAD_PROTOCOL ''no such pattern'' 1000))) = 1"
proof -
  have h: "\<forall>x \<in> set [(sample_env True, TICK 4 1000), (sample_env True, TICK 2.5 1000)].
             \<not> is_LOAD_PROTOCOL (snd x) \<and> \<not> is_CYCLE_COMPLETE (snd x)"
    by simp
  have e: "\<not> is_LOAD_PROTOCOL (TICK 2.5 1000)" "\<not> is_CYCLE_COMPLETE (TICK 2.5 1000)"
    by simp_all
  have r: "run second_phase_kernel [(sample_env True, TICK 4 1000), (sample_env True, TICK 2.5 1000)]
             = second_cycle_kernel"
    by (simp add: run_def second_cycle_kernel_def third_phase_kernel_def)
  have d: "dispatch (sample_env True) third_phase_kernel (TICK 2.5 1000) = second_cycle_kernel"
    by (simp add: second_cycle_kernel_def)
  have i: "intercept (sample_env True) (state second_cycle_kernel) (LOAD_PROTOCOL ''4-7-8'' 1000) = None"
    "intercept (sample_env True) (state second_cycle_kernel) (LOAD_PROTOCOL ''no such pattern'' 1000) = None"
    by (simp_all add: second_cycle_kernel_state intercept_def)
  have p: "BREATHING_PATTERNS (sample_env True) ''4-7-8'' \<noteq> None"
    "BREATHING_PATTERNS (sample_env True) ''no such pattern'' = None"
    by (simp_all add: sample_env_def sample_patterns_def)
  from cycleCount_never_decreases[OF h e, where k = second_phase_kernel]
       cycleCount_never_decreases[OF h e, where k = third_phase_kernel and env = "sample_env True"]
       cycleCount_never_decreases[OF h e, where k = second_cycle_kernel and env = "sample_env True"
         and patternId = "''4-7-8''" and t = 1000]
       cycleCount_never_decreases[OF h e, where k = second_cycle_kernel and env = "sample_env True"
         and patternId = "''no such pattern''" and t = 1000]
  show ?thesis
    unfolding r d i
    by (simp add: p second_cycle_kernel_state second_phase_kernel_state third_phase_kernel_state)
qed

subsection \<open>C10: a tick outside a session\<close>

text \<open>
  C10: when the status is neither \<open>RUNNING\<close> nor \<open>PAUSED\<close> (that is \<open>IDLE\<close>,
  \<open>HALTED\<close> or \<open>SAFETY_LOCK\<close>), reducing a \<^verbatim>\<open>TICK\<close> changes nothing, and dispatching it
  leaves every field of the state as it was, belief, \<open>phaseElapsed\<close> and
  \<open>sessionDuration\<close> included; the dispatch records the tick at the head of the log
  buffer.
\<close>

theorem tick_outside_session_is_noop:
  assumes "status (state k) \<noteq> RUNNING" "status (state k) \<noteq> PAUSED"
  shows "state (dispatch env k (TICK dt t)) = state k
       \<and> reduce env k (TICK dt t) = k
       \<and> logBuffer (dispatch env k (TICK dt t)) = take 50 (TICK dt t # logBuffer k)"
  using assms by (simp add: dispatch.simps handleTick.simps intercept_def notify_def Let_def)

theorem tick_outside_session_is_noop_witness:
  "status (state locked_kernel) = SAFETY_LOCK
   \<and> state (dispatch (sample_env False) locked_kernel (TICK 0.1 1000)) = state locked_kernel
   \<and> hd (logBuffer (dispatch (sample_env False) locked_kernel (TICK 0.1 1000))) = TICK 0.1 1000"
proof -
  have l: "status (state locked_kernel) = SAFETY_LOCK"
    by (simp add: locked_kernel_state)
  then have h: "status (state locked_kernel) \<noteq> RUNNING" "status (state locked_kernel) \<noteq> PAUSED"
    by simp_all
  from tick_outside_session_is_noop[OF h, of "sample_env False" "0.1" 1000] l
  show ?thesis by simp
qed

end
